theory Spec2Isabelle
  imports Complex_Main "HOL-Library.Char_ord" "HOL-Library.List_Lexorder"
    "HOL-Library.Product_Lexorder"
begin

section \<open>Time codec of the schedule store\<close>

text \<open>
  \<^verbatim>\<open>schedule_storage.py\<close>, \<^verbatim>\<open>_time_str_to_minutes\<close> and \<^verbatim>\<open>_minutes_to_time_str\<close>.
  Strings are byte lists; the ASCII part of Python's \<^verbatim>\<open>int(str)\<close> is modelled:
  surrounding whitespace is stripped, one sign is allowed, and digits may be
  separated by single underscores.
\<close>

definition is_space :: "char \<Rightarrow> bool" where
  "is_space c = (let n = (of_char c :: nat) in (9 \<le> n \<and> n \<le> 13) \<or> (28 \<le> n \<and> n \<le> 32))"

definition is_digit :: "char \<Rightarrow> bool" where
  "is_digit c = (let n = (of_char c :: nat) in 48 \<le> n \<and> n \<le> 57)"

definition digit_val :: "char \<Rightarrow> nat" where
  "digit_val c = (of_char c :: nat) - 48"

definition digit_char :: "nat \<Rightarrow> char" where
  "digit_char n = char_of (48 + n)"

definition strip :: "string \<Rightarrow> string" where
  "strip s = rev (dropWhile is_space (rev (dropWhile is_space s)))"

fun parse_digits :: "string \<Rightarrow> nat \<Rightarrow> nat option" where
  "parse_digits [] acc = Some acc"
| "parse_digits (c # cs) acc =
     (if c = CHR ''_'' then
        (case cs of
           [] \<Rightarrow> None
         | d # ds \<Rightarrow> if is_digit d then parse_digits ds (10 * acc + digit_val d) else None)
      else if is_digit c then parse_digits cs (10 * acc + digit_val c)
      else None)"

definition parse_unsigned :: "string \<Rightarrow> nat option" where
  "parse_unsigned s =
     (case s of
        [] \<Rightarrow> None
      | d # ds \<Rightarrow> if is_digit d then parse_digits ds (digit_val d) else None)"

definition py_int :: "string \<Rightarrow> int option" where
  "py_int s =
     (case strip s of
        [] \<Rightarrow> None
      | c # cs \<Rightarrow>
          if c = CHR ''-'' then map_option (\<lambda>n. - int n) (parse_unsigned cs)
          else if c = CHR ''+'' then map_option int (parse_unsigned cs)
          else map_option int (parse_unsigned (c # cs)))"

fun split_on :: "char \<Rightarrow> string \<Rightarrow> string list" where
  "split_on sep [] = [[]]"
| "split_on sep (x # xs) =
     (if x = sep then [] # split_on sep xs
      else (case split_on sep xs of
              [] \<Rightarrow> [[x]]
            | p # ps \<Rightarrow> (x # p) # ps))"

definition time_str_to_minutes :: "string \<Rightarrow> int" where
  "time_str_to_minutes time_str =
     (case split_on CHR '':'' time_str of
        [a, b] \<Rightarrow>
          (case py_int a of
             None \<Rightarrow> 0
           | Some hours \<Rightarrow>
               (case py_int b of
                  None \<Rightarrow> 0
                | Some minutes \<Rightarrow> hours * 60 + minutes))
      | _ \<Rightarrow> 0)"

fun dec :: "nat \<Rightarrow> string" where
  "dec n = (if n < 10 then [digit_char n] else dec (n div 10) @ [digit_char (n mod 10)])"

declare dec.simps [simp del]

definition fmt_02d :: "int \<Rightarrow> string" where
  "fmt_02d n =
     (if n < 0 then CHR ''-'' # dec (nat (- n))
      else let ds = dec (nat n) in replicate (2 - length ds) CHR ''0'' @ ds)"

definition minutes_to_time_str :: "int \<Rightarrow> string" where
  "minutes_to_time_str minutes =
     (let hours = minutes div 60; mins = minutes mod 60
      in fmt_02d hours @ '':'' @ fmt_02d mins)"

definition valid_hhmm :: "string \<Rightarrow> bool" where
  "valid_hhmm s =
     (case s of
        [a, b, k, c, d] \<Rightarrow>
          k = CHR '':'' \<and> is_digit a \<and> is_digit b \<and> is_digit c \<and> is_digit d
          \<and> 10 * digit_val a + digit_val b \<le> 23
          \<and> 10 * digit_val c + digit_val d \<le> 59
      | _ \<Rightarrow> False)"


section \<open>Python values and dictionaries\<close>

text \<open>
  JSON-like values as they reach the store. A number is modelled by its value
  (Python's \<^verbatim>\<open>20 == 20.0\<close>); no arithmetic is done on temperatures.
\<close>

datatype pyval = PNone | PBool bool | PNum real | PStr string

datatype error = IntegrityError | TypeError | ValueError

definition lower :: "string \<Rightarrow> string" where
  "lower s = map (\<lambda>c. let n = (of_char c :: nat) in
                        if 65 \<le> n \<and> n \<le> 90 then char_of (n + 32) else c) s"

text \<open>
  \<^verbatim>\<open>str(temperature).lower() == 'off'\<close>. \<^verbatim>\<open>str\<close> of \<^verbatim>\<open>None\<close> is \<^verbatim>\<open>'None'\<close>, of a
  boolean \<^verbatim>\<open>'True'\<close> or \<^verbatim>\<open>'False'\<close>, of a number its numeral, of a string the
  string itself: only a string can compare equal to \<^verbatim>\<open>'off'\<close>.
\<close>

definition is_off :: "pyval \<Rightarrow> bool" where
  "is_off temperature = (case temperature of PStr s \<Rightarrow> lower s = ''off'' | _ \<Rightarrow> False)"

text \<open>An entry (or legacy period) dictionary; \<open>None\<close> is an absent key.\<close>

record entry =
  time :: "string option"
  start :: "string option"
  temperature :: "pyval option"
  action :: "string option"

text \<open>
  A schedule dictionary, as \<^verbatim>\<open>get_schedule\<close> returns it, as the legacy files hold it
  and as the automation manager reads it. \<^verbatim>\<open>get_schedule\<close> spreads the metadata
  keys into its result; the model keeps them in the field \<open>extra\<close>.
\<close>

record schedule =
  d_id :: "string option"
  d_name :: "string option"
  d_active :: "bool option"
  d_zones :: "string list option"
  d_rooms :: "string list option"
  d_days :: "string list option"
  d_periods :: "entry list option"
  d_entries :: "entry list option"
  d_created_at :: "pyval option"
  d_error :: "pyval option"
  extra :: "(string \<times> pyval) list"

section \<open>The relational store\<close>

text \<open>
  The four tables of \<^verbatim>\<open>init_database\<close>, fields named after the aliases the
  queries use (\<^verbatim>\<open>s\<close>, \<^verbatim>\<open>sz\<close>, \<^verbatim>\<open>sr\<close>, \<^verbatim>\<open>se\<close>). A table is the list of its rows in
  insertion order. The engine-assigned surrogate key \<^verbatim>\<open>id\<close> of the three child
  tables, which no statement of the source reads or writes, and the wall-clock
  columns \<^verbatim>\<open>created_at\<close> and \<^verbatim>\<open>updated_at\<close> are not modelled. A \<^verbatim>\<open>NULL\<close>
  temperature is \<open>PNone\<close>; a temperature row holds the value that was bound, where
  the engine may store another representation of it (an integer as a float, a
  numeric text as the number).
\<close>

record schedule_row =
  s_id :: string
  s_name :: string
  s_active :: bool
  s_metadata :: "(string \<times> pyval) list"

record zone_row =
  sz_schedule_id :: string
  sz_zone_id :: string

record room_row =
  sr_schedule_id :: string
  sr_room_name :: string
  sr_area_id :: "string option"

record entry_row =
  se_schedule_id :: string
  se_day_of_week :: int
  se_time_minutes :: int
  se_temperature :: pyval
  se_action :: string

record db =
  schedules :: "schedule_row list"
  schedule_zones :: "zone_row list"
  schedule_rooms :: "room_row list"
  schedule_entries :: "entry_row list"

definition init_database :: db where
  "init_database = \<lparr>schedules = [], schedule_zones = [], schedule_rooms = [], schedule_entries = []\<rparr>"

text \<open>
  \<^verbatim>\<open>sqlite3.connect\<close> opens a connection with foreign-key enforcement off, the
  engine's default, and the source never issues \<^verbatim>\<open>PRAGMA foreign_keys = ON\<close>.
\<close>

definition connect_foreign_keys :: bool where
  "connect_foreign_keys = False"

subsection \<open>get_schedule\<close>

definition day_names :: "string list" where
  "day_names = [''mon'', ''tue'', ''wed'', ''thu'', ''fri'', ''sat'', ''sun'']"

text \<open>Python list indexing: a negative index counts from the end, out of range raises.\<close>

definition py_index :: "'a list \<Rightarrow> int \<Rightarrow> 'a option" where
  "py_index xs i =
     (if 0 \<le> i \<and> i < int (length xs) then Some (xs ! nat i)
      else if - int (length xs) \<le> i \<and> i < 0 then Some (xs ! nat (int (length xs) + i))
      else None)"

fun collect_days :: "string list \<Rightarrow> entry_row list \<Rightarrow> string list option" where
  "collect_days days [] = Some days"
| "collect_days days (row # rows) =
     (case py_index day_names (se_day_of_week row) of
        None \<Rightarrow> None
      | Some day_name \<Rightarrow>
          collect_days (if day_name \<in> set days then days else days @ [day_name]) rows)"

definition period_of_row :: "entry_row \<Rightarrow> entry" where
  "period_of_row row =
     \<lparr>time = Some (minutes_to_time_str (se_time_minutes row)),
      start = None,
      temperature = Some (if se_temperature row \<noteq> PNone then se_temperature row else PStr ''off''),
      action = Some (se_action row)\<rparr>"

definition room_ref :: "room_row \<Rightarrow> string" where
  "room_ref room_row =
     (case sr_area_id room_row of
        None \<Rightarrow> sr_room_name room_row
      | Some area_id \<Rightarrow>
          if area_id \<noteq> [] then sr_room_name room_row @ ''|'' @ area_id
          else sr_room_name room_row)"

text \<open>
  Any exception inside \<^verbatim>\<open>get_schedule\<close> is caught and turned into \<^verbatim>\<open>None\<close>; the one
  the model can reach is the \<^verbatim>\<open>IndexError\<close> of \<^verbatim>\<open>day_names[row[0]]\<close>. Rows with equal
  sort keys keep their table order.
\<close>

definition get_schedule :: "db \<Rightarrow> string \<Rightarrow> schedule option" where
  "get_schedule conn schedule_id =
     (case find (\<lambda>s. s_id s = schedule_id) (schedules conn) of
        None \<Rightarrow> None
      | Some schedule_row \<Rightarrow>
          (let zones = map sz_zone_id
                 (filter (\<lambda>sz. sz_schedule_id sz = schedule_id) (schedule_zones conn));
               rooms = map room_ref
                 (filter (\<lambda>sr. sr_schedule_id sr = schedule_id) (schedule_rooms conn));
               entries_rows = sort_key (\<lambda>se. (se_day_of_week se, se_time_minutes se))
                 (filter (\<lambda>se. se_schedule_id se = schedule_id) (schedule_entries conn));
               periods = map period_of_row entries_rows
           in case collect_days [] entries_rows of
                None \<Rightarrow> None
              | Some days \<Rightarrow>
                  Some \<lparr>d_id = Some (s_id schedule_row),
                        d_name = Some (s_name schedule_row),
                        d_active = Some (s_active schedule_row),
                        d_zones = Some zones,
                        d_rooms = Some rooms,
                        d_days = Some days,
                        d_periods = Some periods,
                        d_entries = Some periods,
                        d_created_at = None,
                        d_error = None,
                        extra = s_metadata schedule_row\<rparr>))"

subsection \<open>create_schedule\<close>

definition day_mapping :: "string \<Rightarrow> int option" where
  "day_mapping = map_of [(''mon'', 0), (''tue'', 1), (''wed'', 2), (''thu'', 3),
                         (''fri'', 4), (''sat'', 5), (''sun'', 6)]"

text \<open>\<^verbatim>\<open>UNIQUE(schedule_id, zone_id)\<close>: a second insert of the same pair raises.\<close>

fun insert_zones :: "string \<Rightarrow> string list \<Rightarrow> zone_row list \<Rightarrow> error + zone_row list" where
  "insert_zones schedule_id [] tbl = Inr tbl"
| "insert_zones schedule_id (zone_id # zones) tbl =
     (if \<exists>r \<in> set tbl. sz_schedule_id r = schedule_id \<and> sz_zone_id r = zone_id
      then Inl IntegrityError
      else insert_zones schedule_id zones
             (tbl @ [\<lparr>sz_schedule_id = schedule_id, sz_zone_id = zone_id\<rparr>]))"

text \<open>\<^verbatim>\<open>room_name.split('|', 1)\<close> when the reference holds a bar.\<close>

definition split_room :: "string \<Rightarrow> string \<times> string option" where
  "split_room room_name =
     (if CHR ''|'' \<in> set room_name
      then (takeWhile (\<lambda>c. c \<noteq> CHR ''|'') room_name,
            Some (tl (dropWhile (\<lambda>c. c \<noteq> CHR ''|'') room_name)))
      else (room_name, None))"

fun insert_rooms :: "string \<Rightarrow> string list \<Rightarrow> room_row list \<Rightarrow> error + room_row list" where
  "insert_rooms schedule_id [] tbl = Inr tbl"
| "insert_rooms schedule_id (room # rooms) tbl =
     (case split_room room of
        (room_name, area_id) \<Rightarrow>
          if \<exists>r \<in> set tbl. sr_schedule_id r = schedule_id \<and> sr_room_name r = room_name
          then Inl IntegrityError
          else insert_rooms schedule_id rooms
                 (tbl @ [\<lparr>sr_schedule_id = schedule_id, sr_room_name = room_name,
                          sr_area_id = area_id\<rparr>]))"

definition entry_temperature :: "entry \<Rightarrow> pyval" where
  "entry_temperature e = (case temperature e of Some v \<Rightarrow> v | None \<Rightarrow> PNum 20)"

definition entry_action :: "entry \<Rightarrow> string" where
  "entry_action e = (case action e of Some a \<Rightarrow> a | None \<Rightarrow> ''heat'')"

definition row_of_entry :: "string \<Rightarrow> int \<Rightarrow> entry \<Rightarrow> entry_row" where
  "row_of_entry schedule_id day_num e =
     (let time_str = (case time e of Some t \<Rightarrow> t | None \<Rightarrow> ''08:00'');
          time_minutes = time_str_to_minutes time_str;
          temp = entry_temperature e;
          act = entry_action e
      in if is_off temp
         then \<lparr>se_schedule_id = schedule_id, se_day_of_week = day_num,
               se_time_minutes = time_minutes, se_temperature = PNone, se_action = ''off''\<rparr>
         else \<lparr>se_schedule_id = schedule_id, se_day_of_week = day_num,
               se_time_minutes = time_minutes, se_temperature = temp, se_action = act\<rparr>)"

definition day_rows :: "string \<Rightarrow> entry list \<Rightarrow> string \<Rightarrow> entry_row list" where
  "day_rows schedule_id entries day_abbr =
     (case day_mapping (lower day_abbr) of
        None \<Rightarrow> []
      | Some day_num \<Rightarrow> map (row_of_entry schedule_id day_num) entries)"

definition insert_entries :: "string \<Rightarrow> entry list \<Rightarrow> string list \<Rightarrow> entry_row list \<Rightarrow> entry_row list" where
  "insert_entries schedule_id entries days tbl =
     (if entries \<noteq> [] \<and> days \<noteq> []
      then tbl @ concat (map (day_rows schedule_id entries) days)
      else tbl)"

text \<open>
  The statements of \<^verbatim>\<open>create_schedule\<close> run in one transaction: an exception rolls
  it back and is re-raised, so the error outcome carries the store unchanged.
  An absent (\<^verbatim>\<open>None\<close>) list argument and an empty one take the same branches.
\<close>

definition create_schedule ::
  "db \<Rightarrow> string \<Rightarrow> string \<Rightarrow> string list \<Rightarrow> string list \<Rightarrow> entry list \<Rightarrow> string list
     \<Rightarrow> bool \<Rightarrow> (string \<times> pyval) list \<Rightarrow> (error + schedule option) \<times> db" where
  "create_schedule conn schedule_id name zones rooms entries days active metadata =
     (let replaced = filter (\<lambda>s. s_id s \<noteq> schedule_id) (schedules conn)
                       @ [\<lparr>s_id = schedule_id, s_name = name, s_active = active,
                            s_metadata = metadata\<rparr>];
          zones0 = filter (\<lambda>sz. sz_schedule_id sz \<noteq> schedule_id) (schedule_zones conn);
          rooms0 = filter (\<lambda>sr. sr_schedule_id sr \<noteq> schedule_id) (schedule_rooms conn);
          entries0 = filter (\<lambda>se. se_schedule_id se \<noteq> schedule_id) (schedule_entries conn)
      in case insert_zones schedule_id zones zones0 of
           Inl e \<Rightarrow> (Inl e, conn)
         | Inr zones1 \<Rightarrow>
             (case insert_rooms schedule_id rooms rooms0 of
                Inl e \<Rightarrow> (Inl e, conn)
              | Inr rooms1 \<Rightarrow>
                  (let conn' = \<lparr>schedules = replaced, schedule_zones = zones1,
                                schedule_rooms = rooms1,
                                schedule_entries =
                                  insert_entries schedule_id entries days entries0\<rparr>
                   in (Inr (get_schedule conn' schedule_id), conn'))))"


subsection \<open>delete_schedule\<close>

text \<open>
  \<^verbatim>\<open>DELETE FROM schedules WHERE id = ?\<close> on a connection whose foreign-key
  enforcement is \<open>fk\<close>: the \<^verbatim>\<open>ON DELETE CASCADE\<close> clauses of the child tables act
  only under enforcement. The first component is the cursor's row count.
\<close>

definition delete_from_schedules :: "bool \<Rightarrow> db \<Rightarrow> string \<Rightarrow> nat \<times> db" where
  "delete_from_schedules fk conn schedule_id =
     (let rowcount = length (filter (\<lambda>s. s_id s = schedule_id) (schedules conn));
          conn1 = conn\<lparr>schedules := filter (\<lambda>s. s_id s \<noteq> schedule_id) (schedules conn)\<rparr>
      in if fk \<and> 0 < rowcount
         then (rowcount,
               conn1\<lparr>schedule_zones :=
                        filter (\<lambda>sz. sz_schedule_id sz \<noteq> schedule_id) (schedule_zones conn),
                      schedule_rooms :=
                        filter (\<lambda>sr. sr_schedule_id sr \<noteq> schedule_id) (schedule_rooms conn),
                      schedule_entries :=
                        filter (\<lambda>se. se_schedule_id se \<noteq> schedule_id) (schedule_entries conn)\<rparr>)
         else (rowcount, conn1))"

definition delete_schedule :: "db \<Rightarrow> string \<Rightarrow> bool \<times> db" where
  "delete_schedule conn schedule_id =
     (case delete_from_schedules connect_foreign_keys conn schedule_id of
        (rowcount, conn') \<Rightarrow> (0 < rowcount, conn'))"

subsection \<open>Queries by zone, room and time\<close>

text \<open>\<^verbatim>\<open>SELECT DISTINCT\<close> is \<open>remdups\<close>; the engine leaves the order of the rows open.\<close>

definition zone_schedule_ids :: "db \<Rightarrow> string \<Rightarrow> string list" where
  "zone_schedule_ids conn zone_id =
     remdups [sz_schedule_id sz. sz \<leftarrow> schedule_zones conn, s \<leftarrow> schedules conn,
              sz_schedule_id sz = s_id s, sz_zone_id sz = zone_id \<and> s_active s]"

definition get_active_schedules_for_zone :: "db \<Rightarrow> string \<Rightarrow> schedule list" where
  "get_active_schedules_for_zone conn zone_id =
     List.map_filter (get_schedule conn) (zone_schedule_ids conn zone_id)"

definition room_schedule_ids :: "db \<Rightarrow> string \<Rightarrow> string list" where
  "room_schedule_ids conn room_name =
     remdups [sr_schedule_id sr. sr \<leftarrow> schedule_rooms conn, s \<leftarrow> schedules conn,
              sr_schedule_id sr = s_id s, sr_room_name sr = room_name \<and> s_active s]"

definition get_active_schedules_for_room :: "db \<Rightarrow> string \<Rightarrow> schedule list" where
  "get_active_schedules_for_room conn room_name =
     List.map_filter (get_schedule conn) (room_schedule_ids conn room_name)"

definition get_zones_with_schedules :: "db \<Rightarrow> string list" where
  "get_zones_with_schedules conn =
     remdups [sz_zone_id sz. sz \<leftarrow> schedule_zones conn, s \<leftarrow> schedules conn,
              sz_schedule_id sz = s_id s, s_active s]"

record zone_state =
  st_temperature :: pyval
  st_action :: string
  st_schedule_name :: string

text \<open>
  The three-table join of \<^verbatim>\<open>get_schedule_state_at_time\<close>, ordered by
  \<^verbatim>\<open>se.time_minutes DESC\<close>, of which \<^verbatim>\<open>LIMIT 1\<close> keeps the head.
\<close>

definition state_rows :: "db \<Rightarrow> string \<Rightarrow> int \<Rightarrow> int \<Rightarrow> (entry_row \<times> schedule_row) list" where
  "state_rows conn zone_id day_of_week time_minutes =
     [(se, s). se \<leftarrow> schedule_entries conn, sz \<leftarrow> schedule_zones conn,
               se_schedule_id se = sz_schedule_id sz,
               s \<leftarrow> schedules conn, se_schedule_id se = s_id s,
               sz_zone_id sz = zone_id \<and> se_day_of_week se = day_of_week
               \<and> se_time_minutes se \<le> time_minutes \<and> s_active s]"

definition get_schedule_state_at_time :: "db \<Rightarrow> string \<Rightarrow> int \<Rightarrow> int \<Rightarrow> zone_state option" where
  "get_schedule_state_at_time conn zone_id day_of_week time_minutes =
     (case sort_key (\<lambda>row. - se_time_minutes (fst row))
             (state_rows conn zone_id day_of_week time_minutes) of
        [] \<Rightarrow> None
      | entry # _ \<Rightarrow>
          Some \<lparr>st_temperature = se_temperature (fst entry),
                st_action = se_action (fst entry),
                st_schedule_name = s_name (snd entry)\<rparr>)"

section \<open>Legacy importer\<close>




section \<open>Consolidated automation\<close>

text \<open>\<^verbatim>\<open>smart_automation_manager.py\<close>.\<close>

definition entries_of :: "schedule \<Rightarrow> entry list" where
  "entries_of schedule =
     (case d_entries schedule of
        Some es \<Rightarrow> es
      | None \<Rightarrow> (case d_periods schedule of Some ps \<Rightarrow> ps | None \<Rightarrow> []))"





text \<open>
  \<^verbatim>\<open>float(temperature)\<close>; Python's conversion of a text to a float is the
  parameter \<open>float_of_str\<close> (\<open>None\<close> where it raises \<^verbatim>\<open>ValueError\<close>).
\<close>

definition py_float :: "(string \<Rightarrow> real option) \<Rightarrow> pyval \<Rightarrow> error + real" where
  "py_float float_of_str v =
     (case v of
        PNone \<Rightarrow> Inl TypeError
      | PBool b \<Rightarrow> Inr (if b then 1 else 0)
      | PNum r \<Rightarrow> Inr r
      | PStr s \<Rightarrow> (case float_of_str s of None \<Rightarrow> Inl ValueError | Some r \<Rightarrow> Inr r))"

text \<open>
  \<^verbatim>\<open>_build_target_state_template_safe\<close> returns the text of a template that is one
  dictionary literal \<^verbatim>\<open>{{ {'temperature': T, 'action': 'A', 'schedule_name': 'N'} }}\<close>;
  the model returns the literal's three slots.
\<close>

definition default_target_state :: zone_state where
  "default_target_state =
     \<lparr>st_temperature = PNum 20, st_action = ''heat'', st_schedule_name = ''Default''\<rparr>"

fun build_target_state_template_safe ::
  "(string \<Rightarrow> real option) \<Rightarrow> schedule list \<Rightarrow> error + zone_state" where
  "build_target_state_template_safe float_of_str [] = Inr default_target_state"
| "build_target_state_template_safe float_of_str (schedule # zone_schedules) =
     (if (case d_active schedule of Some a \<Rightarrow> a | None \<Rightarrow> True)
      then (case entries_of schedule of
              [] \<Rightarrow> build_target_state_template_safe float_of_str zone_schedules
            | first_entry # _ \<Rightarrow>
                (let temp = (case temperature first_entry of Some v \<Rightarrow> v | None \<Rightarrow> PNum 20);
                     act = (if is_off temp then ''off'' else ''heat'');
                     schedule_name = (case d_name schedule of
                                        Some n \<Rightarrow> n | None \<Rightarrow> ''Unnamed Schedule'')
                 in if act = ''off''
                    then Inr \<lparr>st_temperature = PNum 16, st_action = act,
                              st_schedule_name = schedule_name\<rparr>
                    else (case py_float float_of_str temp of
                            Inl e \<Rightarrow> Inl e
                          | Inr temp_value \<Rightarrow>
                              Inr \<lparr>st_temperature = PNum temp_value, st_action = act,
                                   st_schedule_name = schedule_name\<rparr>)))
      else build_target_state_template_safe float_of_str zone_schedules)"

text \<open>The steps of the automation's action body.\<close>

datatype step =
    Variables string zone_state
  | Service string string "(string \<times> string) list"
  | Logbook string string
  | Choose string "step list" "step list"

definition build_actions ::
  "(string \<Rightarrow> real option) \<Rightarrow> string \<Rightarrow> string \<Rightarrow> schedule list \<Rightarrow> error + step list" where
  "build_actions float_of_str zone_id zone_name zone_schedules =
     (case build_target_state_template_safe float_of_str zone_schedules of
        Inl e \<Rightarrow> Inl e
      | Inr target_state \<Rightarrow>
          Inr [Variables ''target_state'' target_state,
               Choose ''{{ target_state.action == 'off' }}''
                 [Service ''climate.set_hvac_mode'' zone_id [(''hvac_mode'', ''off'')],
                  Logbook ''Tado Smart Scheduler''
                    (''Turned off heating in '' @ zone_name
                       @ '' (Schedule: {{ target_state.schedule_name }})'')]
                 [Service ''climate.set_temperature'' zone_id
                    [(''temperature'', ''{{ target_state.temperature }}'')],
                  Service ''climate.set_hvac_mode'' zone_id [(''hvac_mode'', ''heat'')],
                  Logbook ''Tado Smart Scheduler''
                    (''Set '' @ zone_name @ '' to {{ target_state.temperature }}''
                       @ [CHR 0xC3, CHR 0x82, CHR 0xC2, CHR 0xB0]
                       @ ''C (Schedule: {{ target_state.schedule_name }})'')]])"




section \<open>Predicates of the specification\<close>

text \<open>
  The resolver's selection criterion in the specification's words: the entry \<open>se\<close>
  of schedule \<open>s\<close> governs the zone on that weekday no later than the queried minute,
  when \<open>s\<close> is active and directly assigned to the zone.
\<close>

definition governs :: "db \<Rightarrow> string \<Rightarrow> int \<Rightarrow> int \<Rightarrow> entry_row \<Rightarrow> schedule_row \<Rightarrow> bool" where
  "governs conn zone_id weekday minute se s =
     (se \<in> set (schedule_entries conn) \<and> s \<in> set (schedules conn)
      \<and> se_schedule_id se = s_id s \<and> s_active s
      \<and> (\<exists>sz \<in> set (schedule_zones conn).
            sz_schedule_id sz = s_id s \<and> sz_zone_id sz = zone_id)
      \<and> se_day_of_week se = weekday \<and> se_time_minutes se \<le> minute)"

text \<open>The worked example of the specification: three Monday entries on one zone.\<close>

definition example_entries :: "entry list" where
  "example_entries =
     [\<lparr>time = Some ''06:00'', start = None, temperature = Some (PNum 20), action = None\<rparr>,
      \<lparr>time = Some ''08:00'', start = None, temperature = Some (PNum 16), action = None\<rparr>,
      \<lparr>time = Some ''17:00'', start = None, temperature = Some (PNum 21), action = None\<rparr>]"

definition example_db :: db where
  "example_db =
     snd (create_schedule init_database ''s1'' ''Workday'' [''climate.living_room''] []
            example_entries [''mon''] True [])"




text \<open>The rows of one schedule in each child table.\<close>

definition zones_of :: "db \<Rightarrow> string \<Rightarrow> zone_row list" where
  "zones_of conn schedule_id =
     filter (\<lambda>sz. sz_schedule_id sz = schedule_id) (schedule_zones conn)"

definition rooms_of :: "db \<Rightarrow> string \<Rightarrow> room_row list" where
  "rooms_of conn schedule_id =
     filter (\<lambda>sr. sr_schedule_id sr = schedule_id) (schedule_rooms conn)"

definition entry_rows_of :: "db \<Rightarrow> string \<Rightarrow> entry_row list" where
  "entry_rows_of conn schedule_id =
     filter (\<lambda>se. se_schedule_id se = schedule_id) (schedule_entries conn)"

text \<open>The day names \<^verbatim>\<open>create_schedule\<close> recognises.\<close>

definition recognised :: "string \<Rightarrow> bool" where
  "recognised day_abbr = (lower day_abbr \<in> set day_names)"

text \<open>A store with a room assignment, for the cascade.\<close>

definition assigned_db :: db where
  "assigned_db =
     snd (create_schedule init_database ''s1'' ''Workday'' [''climate.living_room'']
            [''Living Room|area1''] example_entries [''mon''] True [])"

section \<open>Auxiliary definitions for the proofs\<close>

definition zone_row_of :: "string \<Rightarrow> string \<Rightarrow> zone_row" where
  "zone_row_of schedule_id zone_id = \<lparr>sz_schedule_id = schedule_id, sz_zone_id = zone_id\<rparr>"

definition room_row_of :: "string \<Rightarrow> string \<Rightarrow> room_row" where
  "room_row_of schedule_id room =
     \<lparr>sr_schedule_id = schedule_id, sr_room_name = fst (split_room room),
      sr_area_id = snd (split_room room)\<rparr>"

text \<open>The store a successful \<^verbatim>\<open>create_schedule\<close> commits.\<close>

definition committed ::
  "db \<Rightarrow> string \<Rightarrow> string \<Rightarrow> string list \<Rightarrow> string list \<Rightarrow> entry list \<Rightarrow> string list
     \<Rightarrow> bool \<Rightarrow> (string \<times> pyval) list \<Rightarrow> db" where
  "committed conn schedule_id name zones rooms entries days active metadata =
     \<lparr>schedules = filter (\<lambda>s. s_id s \<noteq> schedule_id) (schedules conn)
                    @ [\<lparr>s_id = schedule_id, s_name = name, s_active = active,
                         s_metadata = metadata\<rparr>],
      schedule_zones = filter (\<lambda>sz. sz_schedule_id sz \<noteq> schedule_id) (schedule_zones conn)
                         @ map (zone_row_of schedule_id) zones,
      schedule_rooms = filter (\<lambda>sr. sr_schedule_id sr \<noteq> schedule_id) (schedule_rooms conn)
                         @ map (room_row_of schedule_id) rooms,
      schedule_entries = filter (\<lambda>se. se_schedule_id se \<noteq> schedule_id) (schedule_entries conn)
                           @ concat (map (day_rows schedule_id entries) days)\<rparr>"




text \<open>
  The weekday column holds 0 (Monday) to 6 (Sunday), as the schema's comment says; every
  store the code builds keeps it so.
\<close>

definition days_ok :: "db \<Rightarrow> bool" where
  "days_ok conn =
     (\<forall>se \<in> set (schedule_entries conn). 0 \<le> se_day_of_week se \<and> se_day_of_week se \<le> 6)"

definition known_id :: "db \<Rightarrow> string \<Rightarrow> bool" where
  "known_id conn schedule_id = (\<exists>s \<in> set (schedules conn). s_id s = schedule_id)"



section \<open>Properties of the time codec\<close>

lemma digit_char_val: "is_digit c \<Longrightarrow> digit_char (digit_val c) = c"
  by (simp add: is_digit_def digit_char_def digit_val_def Let_def)

lemma digit_val_lt: "is_digit c \<Longrightarrow> digit_val c < 10"
  by (auto simp: is_digit_def digit_val_def Let_def)

lemma digit_not_special:
  assumes "is_digit c"
  shows "\<not> is_space c" "c \<noteq> CHR '':''" "c \<noteq> CHR ''-''" "c \<noteq> CHR ''+''" "c \<noteq> CHR ''_''"
  using assms by (auto simp: is_digit_def is_space_def Let_def)

lemma strip_two_digits: "is_digit a \<Longrightarrow> is_digit b \<Longrightarrow> strip [a, b] = [a, b]"
  by (simp add: strip_def digit_not_special)

lemma py_int_two_digits:
  "is_digit a \<Longrightarrow> is_digit b \<Longrightarrow> py_int [a, b] = Some (int (10 * digit_val a + digit_val b))"
  by (simp add: py_int_def strip_two_digits parse_unsigned_def digit_not_special)

lemma split_hhmm:
  "is_digit a \<Longrightarrow> is_digit b \<Longrightarrow> is_digit c \<Longrightarrow> is_digit d \<Longrightarrow>
   split_on CHR '':'' [a, b, CHR '':'', c, d] = [[a, b], [c, d]]"
  by (simp add: digit_not_special)

lemma digit_char_0: "digit_char 0 = CHR ''0''"
  by code_simp

lemma fmt_02d_two:
  assumes "n < 100"
  shows "fmt_02d (int n) = [digit_char (n div 10), digit_char (n mod 10)]"
proof (cases "n < 10")
  case True
  then have "dec n = [digit_char n]" by (simp add: dec.simps)
  with True show ?thesis by (simp add: fmt_02d_def digit_char_0)
next
  case False
  with assms have "n div 10 < 10" by simp
  then have "dec (n div 10) = [digit_char (n div 10)]" by (simp add: dec.simps)
  with False have "dec n = [digit_char (n div 10), digit_char (n mod 10)]"
    by (subst dec.simps) simp
  then show ?thesis by (simp add: fmt_02d_def)
qed

lemma fmt_02d_digits:
  assumes "is_digit a" "is_digit b"
  shows "fmt_02d (int (10 * digit_val a + digit_val b)) = [a, b]"
proof -
  define n where "n = 10 * digit_val a + digit_val b"
  have lt: "digit_val a < 10" "digit_val b < 10" using assms by (simp_all add: digit_val_lt)
  then have "n < 100" by (simp add: n_def)
  then have "fmt_02d (int n) = [digit_char (n div 10), digit_char (n mod 10)]"
    by (rule fmt_02d_two)
  moreover have "n div 10 = digit_val a" using lt by (simp add: n_def)
  moreover have "n mod 10 = digit_val b" using lt by (simp add: n_def)
  ultimately show ?thesis using assms by (simp add: digit_char_val n_def [symmetric])
qed

text \<open>
  Claim C7. For every valid time string \<open>s\<close> of the form HH:MM (two digits each,
  hours at most 23, minutes at most 59), converting \<open>s\<close> to minutes since midnight
  and back gives \<open>s\<close> again.
\<close>

theorem time_str_roundtrip:
  assumes "valid_hhmm s"
  shows "minutes_to_time_str (time_str_to_minutes s) = s"
proof -
  from assms obtain a b c d where s: "s = [a, b, CHR '':'', c, d]"
    and dg: "is_digit a" "is_digit b" "is_digit c" "is_digit d"
    and hh: "10 * digit_val a + digit_val b \<le> 23"
    and mm: "10 * digit_val c + digit_val d \<le> 59"
    by (auto simp: valid_hhmm_def split: list.splits)
  define h where "h = 10 * digit_val a + digit_val b"
  define m where "m = 10 * digit_val c + digit_val d"
  have sp: "split_on CHR '':'' s = [[a, b], [c, d]]"
    unfolding s using dg by (rule split_hhmm)
  have t: "time_str_to_minutes s = int h * 60 + int m"
    unfolding time_str_to_minutes_def sp h_def m_def
    using dg by (simp only: py_int_two_digits list.case option.case)
  have m60: "m < 60" using mm by (simp add: m_def)
  have "(int h * 60 + int m) div 60 = int h" using m60 by simp
  moreover have "(int h * 60 + int m) mod 60 = int m" using m60 by simp
  ultimately have "minutes_to_time_str (int h * 60 + int m) = fmt_02d (int h) @ '':'' @ fmt_02d (int m)"
    by (simp add: minutes_to_time_str_def Let_def)
  also have "\<dots> = s"
    using dg unfolding h_def m_def by (simp only: fmt_02d_digits s) simp
  finally show ?thesis by (simp add: t)
qed

theorem time_str_roundtrip_witness:
  "valid_hhmm ''07:30'' \<and> minutes_to_time_str (time_str_to_minutes ''07:30'') = ''07:30''"
proof -
  have v: "valid_hhmm ''07:30''" by code_simp
  from time_str_roundtrip [OF v] v show ?thesis by simp
qed

section \<open>The resolver\<close>

lemma example_db_eq:
  "example_db =
     \<lparr>schedules = [\<lparr>s_id = ''s1'', s_name = ''Workday'', s_active = True, s_metadata = []\<rparr>],
      schedule_zones = [\<lparr>sz_schedule_id = ''s1'', sz_zone_id = ''climate.living_room''\<rparr>],
      schedule_rooms = [],
      schedule_entries =
        [\<lparr>se_schedule_id = ''s1'', se_day_of_week = 0, se_time_minutes = 360,
          se_temperature = PNum 20, se_action = ''heat''\<rparr>,
         \<lparr>se_schedule_id = ''s1'', se_day_of_week = 0, se_time_minutes = 480,
          se_temperature = PNum 16, se_action = ''heat''\<rparr>,
         \<lparr>se_schedule_id = ''s1'', se_day_of_week = 0, se_time_minutes = 1020,
          se_temperature = PNum 21, se_action = ''heat''\<rparr>]\<rparr>"
  by code_simp

lemma state_rows_iff:
  "(se, s) \<in> set (state_rows conn zone_id weekday minute) \<longleftrightarrow> governs conn zone_id weekday minute se s"
  by (auto simp: state_rows_def governs_def)

lemma sort_key_head:
  assumes "sort_key f xs = y # ys"
  shows "y \<in> set xs \<and> (\<forall>x \<in> set xs. f y \<le> f x)"
proof -
  have "set (sort_key f xs) = set xs" by simp
  with assms have mem: "set xs = insert y (set ys)" by simp
  have "sorted (map f (sort_key f xs))" by (rule sorted_sort_key)
  with assms have "\<forall>z \<in> set ys. f y \<le> f z" by simp
  with mem show ?thesis by auto
qed

lemma example_at_0730: "get_schedule_state_at_time example_db ''climate.living_room'' 0 450
     = Some \<lparr>st_temperature = PNum 20, st_action = ''heat'', st_schedule_name = ''Workday''\<rparr>"
  by code_simp
lemma example_at_0500: "get_schedule_state_at_time example_db ''climate.living_room'' 0 300 = None"
  by code_simp
lemma example_at_2300: "get_schedule_state_at_time example_db ''climate.living_room'' 0 1380
     = Some \<lparr>st_temperature = PNum 21, st_action = ''heat'', st_schedule_name = ''Workday''\<rparr>"
  by code_simp


text \<open>
  Claim C2. For every zone, weekday and minute, \<^verbatim>\<open>get_schedule_state_at_time\<close> returns
  the temperature, action and schedule name of an entry with the greatest
  \<^verbatim>\<open>time_minutes\<close> not after the queried minute, among the entries whose schedule is
  directly assigned to the zone, active and on that weekday; it returns \<^verbatim>\<open>None\<close>
  exactly when no such entry exists.
\<close>

theorem resolver_selects_latest:
  "(get_schedule_state_at_time conn zone_id weekday minute = None
      \<longleftrightarrow> (\<forall>se s. \<not> governs conn zone_id weekday minute se s))
   \<and> (\<forall>r. get_schedule_state_at_time conn zone_id weekday minute = Some r \<longrightarrow>
         (\<exists>se s. governs conn zone_id weekday minute se s
            \<and> r = \<lparr>st_temperature = se_temperature se, st_action = se_action se,
                   st_schedule_name = s_name s\<rparr>
            \<and> (\<forall>se' s'. governs conn zone_id weekday minute se' s'
                  \<longrightarrow> se_time_minutes se' \<le> se_time_minutes se)))"
proof -
  let ?rows = "state_rows conn zone_id weekday minute"
  let ?sorted = "sort_key (\<lambda>row. - se_time_minutes (fst row)) ?rows"
  show ?thesis
  proof (cases ?sorted)
    case Nil
    then have "set ?rows = {}" by (metis set_empty set_sort)
    then have "\<forall>se s. \<not> governs conn zone_id weekday minute se s"
      by (simp add: state_rows_iff [symmetric])
    with Nil show ?thesis by (simp add: get_schedule_state_at_time_def)
  next
    case (Cons entry rest)
    from sort_key_head [OF Cons]
    have mem: "entry \<in> set ?rows"
      and mx: "\<forall>x \<in> set ?rows. se_time_minutes (fst x) \<le> se_time_minutes (fst entry)"
      by auto
    obtain se s where e: "entry = (se, s)" by (cases entry)
    from mem e have g: "governs conn zone_id weekday minute se s"
      by (simp add: state_rows_iff)
    have "\<forall>se' s'. governs conn zone_id weekday minute se' s'
            \<longrightarrow> se_time_minutes se' \<le> se_time_minutes se"
      using mx e state_rows_iff by fastforce
    with g e Cons show ?thesis
      by (auto simp: get_schedule_state_at_time_def)
  qed
qed

theorem resolver_selects_latest_witness:
  "get_schedule_state_at_time example_db ''climate.living_room'' 0 450
     = Some \<lparr>st_temperature = PNum 20, st_action = ''heat'', st_schedule_name = ''Workday''\<rparr>
   \<and> get_schedule_state_at_time example_db ''climate.living_room'' 0 300 = None
   \<and> get_schedule_state_at_time example_db ''climate.living_room'' 0 1380
     = Some \<lparr>st_temperature = PNum 21, st_action = ''heat'', st_schedule_name = ''Workday''\<rparr>
   \<and> (\<exists>se s. governs example_db ''climate.living_room'' 0 450 se s
          \<and> se_temperature se = PNum 20 \<and> s_name s = ''Workday'')
   \<and> (\<forall>se s. \<not> governs example_db ''climate.living_room'' 0 300 se s)"
proof -
  note thm450 = resolver_selects_latest [of example_db "''climate.living_room''" 0 450]
  note thm300 = resolver_selects_latest [of example_db "''climate.living_room''" 0 300]
  from thm450 example_at_0730 obtain se s where
    "governs example_db ''climate.living_room'' 0 450 se s"
    "\<lparr>st_temperature = PNum 20, st_action = ''heat'', st_schedule_name = ''Workday''\<rparr>
       = \<lparr>st_temperature = se_temperature se, st_action = se_action se,
          st_schedule_name = s_name s\<rparr>"
    by blast
  then have "\<exists>se s. governs example_db ''climate.living_room'' 0 450 se s
          \<and> se_temperature se = PNum 20 \<and> s_name s = ''Workday''"
    by auto
  moreover from thm300 example_at_0500
  have "\<forall>se s. \<not> governs example_db ''climate.living_room'' 0 300 se s"
    by blast
  ultimately show ?thesis using example_at_0730 example_at_0500 example_at_2300 by blast
qed

section \<open>The consolidated automation\<close>












subsection \<open>The target state of the action body\<close>

text \<open>
  The literal is built from the first entry of the first active schedule that has
  entries; later entries and later schedules do not reach it.
\<close>

lemma target_state_first_entry_only:
  assumes "d_active schedule \<noteq> Some False" and "entries_of schedule = e # es"
    and "entries_of schedule' = [e]" and "d_active schedule' = d_active schedule"
    and "d_name schedule' = d_name schedule"
  shows "build_target_state_template_safe fos (schedule # rest)
           = build_target_state_template_safe fos [schedule']"
  using assms by (cases "d_active schedule") (auto simp: Let_def split: sum.splits)

text \<open>
  Claim C1. On the specification's example (one active schedule with Monday entries
  06:00 at 20, 08:00 at 16, 17:00 at 21) the action body binds \<^verbatim>\<open>target_state\<close> to the
  literal of the first entry, fixed when the automation is built, while the entry
  that applies on Monday at 08:00 is the one at 16.
\<close>

theorem target_state_fixed_when_built:
  "build_actions (\<lambda>s. None) ''climate.living_room'' ''Living Room''
       (get_active_schedules_for_zone example_db ''climate.living_room'')
     = Inr [Variables ''target_state''
              \<lparr>st_temperature = PNum 20, st_action = ''heat'', st_schedule_name = ''Workday''\<rparr>,
            Choose ''{{ target_state.action == 'off' }}''
              [Service ''climate.set_hvac_mode'' ''climate.living_room'' [(''hvac_mode'', ''off'')],
               Logbook ''Tado Smart Scheduler''
                 ''Turned off heating in Living Room (Schedule: {{ target_state.schedule_name }})'']
              [Service ''climate.set_temperature'' ''climate.living_room''
                 [(''temperature'', ''{{ target_state.temperature }}'')],
               Service ''climate.set_hvac_mode'' ''climate.living_room'' [(''hvac_mode'', ''heat'')],
               Logbook ''Tado Smart Scheduler''
                 (''Set Living Room to {{ target_state.temperature }}''
                    @ [CHR 0xC3, CHR 0x82, CHR 0xC2, CHR 0xB0]
                    @ ''C (Schedule: {{ target_state.schedule_name }})'')]]
   \<and> get_schedule_state_at_time example_db ''climate.living_room'' 0 480
     = Some \<lparr>st_temperature = PNum 16, st_action = ''heat'', st_schedule_name = ''Workday''\<rparr>"
  by code_simp

section \<open>Properties of create_schedule\<close>

lemma insert_zones_eq:
  "insert_zones sid zones tbl =
     (if distinct zones \<and> (\<forall>z \<in> set zones. \<not> (\<exists>r \<in> set tbl. sz_schedule_id r = sid \<and> sz_zone_id r = z))
      then Inr (tbl @ map (zone_row_of sid) zones)
      else Inl IntegrityError)"
proof (induction zones arbitrary: tbl)
  case Nil
  then show ?case by simp
next
  case (Cons z zs)
  show ?case
  proof (cases "\<exists>r \<in> set tbl. sz_schedule_id r = sid \<and> sz_zone_id r = z")
    case True
    then show ?thesis by auto
  next
    case False
    then show ?thesis
      by (simp add: Cons.IH zone_row_of_def) auto
  qed
qed

lemma insert_rooms_eq:
  "insert_rooms sid rooms tbl =
     (if distinct (map (\<lambda>r. fst (split_room r)) rooms)
         \<and> (\<forall>room \<in> set rooms. \<not> (\<exists>r \<in> set tbl. sr_schedule_id r = sid \<and> sr_room_name r = fst (split_room room)))
      then Inr (tbl @ map (room_row_of sid) rooms)
      else Inl IntegrityError)"
proof (induction rooms arbitrary: tbl)
  case Nil
  then show ?case by simp
next
  case (Cons room rooms)
  obtain rn ar where sp: "split_room room = (rn, ar)" by (cases "split_room room")
  show ?case
  proof (cases "\<exists>r \<in> set tbl. sr_schedule_id r = sid \<and> sr_room_name r = rn")
    case True
    then show ?thesis using sp by auto
  next
    case False
    then show ?thesis
      using sp by (simp add: Cons.IH room_row_of_def) auto
  qed
qed

lemma insert_zones_purged:
  "insert_zones sid zones (filter (\<lambda>sz. sz_schedule_id sz \<noteq> sid) tbl) =
     (if distinct zones
      then Inr (filter (\<lambda>sz. sz_schedule_id sz \<noteq> sid) tbl @ map (zone_row_of sid) zones)
      else Inl IntegrityError)"
  by (simp add: insert_zones_eq)

lemma insert_rooms_purged:
  "insert_rooms sid rooms (filter (\<lambda>sr. sr_schedule_id sr \<noteq> sid) tbl) =
     (if distinct (map (\<lambda>r. fst (split_room r)) rooms)
      then Inr (filter (\<lambda>sr. sr_schedule_id sr \<noteq> sid) tbl @ map (room_row_of sid) rooms)
      else Inl IntegrityError)"
  by (simp add: insert_rooms_eq)

lemma day_rows_Nil: "day_rows sid [] d = []"
  by (simp add: day_rows_def split: option.splits)

lemma insert_entries_eq:
  "insert_entries sid entries days tbl = tbl @ concat (map (day_rows sid entries) days)"
  by (simp add: insert_entries_def day_rows_Nil)

lemma create_schedule_eq:
  "create_schedule conn sid name zones rooms entries days active md =
     (if distinct zones \<and> distinct (map (\<lambda>r. fst (split_room r)) rooms)
      then (Inr (get_schedule (committed conn sid name zones rooms entries days active md) sid),
            committed conn sid name zones rooms entries days active md)
      else (Inl IntegrityError, conn))"
  by (simp add: create_schedule_def insert_zones_purged insert_rooms_purged insert_entries_eq
        committed_def Let_def)

lemma row_of_entry_sid: "se_schedule_id (row_of_entry sid n e) = sid"
  by (simp add: row_of_entry_def Let_def)

lemma day_rows_sid: "r \<in> set (day_rows sid entries d) \<Longrightarrow> se_schedule_id r = sid"
  by (auto simp: day_rows_def row_of_entry_sid split: option.splits)

lemma filter_new_zone_rows:
  "filter (\<lambda>sz. sz_schedule_id sz \<noteq> sid) (map (zone_row_of sid) zones) = []"
  "filter (\<lambda>sz. sz_schedule_id sz = sid) (map (zone_row_of sid) zones) = map (zone_row_of sid) zones"
  by (simp_all add: filter_map comp_def zone_row_of_def)

lemma filter_new_room_rows:
  "filter (\<lambda>sr. sr_schedule_id sr \<noteq> sid) (map (room_row_of sid) rooms) = []"
  "filter (\<lambda>sr. sr_schedule_id sr = sid) (map (room_row_of sid) rooms) = map (room_row_of sid) rooms"
  by (simp_all add: filter_map comp_def room_row_of_def)

lemma filter_new_entry_rows:
  "filter (\<lambda>se. se_schedule_id se \<noteq> sid) (concat (map (day_rows sid entries) days)) = []"
  "filter (\<lambda>se. se_schedule_id se = sid) (concat (map (day_rows sid entries) days))
     = concat (map (day_rows sid entries) days)"
  by (auto simp: filter_empty_conv filter_id_conv dest: day_rows_sid)

lemma filter_purged:
  "filter (\<lambda>x. f x = sid) (filter (\<lambda>x. f x \<noteq> sid) xs) = []"
  by (simp add: filter_empty_conv)

lemma zones_of_committed:
  "zones_of (committed conn sid name zones rooms entries days active md) sid = map (zone_row_of sid) zones"
  by (simp add: zones_of_def committed_def filter_new_zone_rows filter_purged)

lemma rooms_of_committed:
  "rooms_of (committed conn sid name zones rooms entries days active md) sid = map (room_row_of sid) rooms"
  by (simp add: rooms_of_def committed_def filter_new_room_rows filter_purged)

lemma entry_rows_of_committed:
  "entry_rows_of (committed conn sid name zones rooms entries days active md) sid
     = concat (map (day_rows sid entries) days)"
  by (simp add: entry_rows_of_def committed_def filter_new_entry_rows filter_purged)


lemma day_mapping_None: "day_mapping (lower d) = None \<longleftrightarrow> \<not> recognised d"
  by (simp add: day_mapping_def recognised_def day_names_def)

lemma day_rows_unrecognised: "\<not> recognised d \<Longrightarrow> day_rows sid entries d = []"
  by (simp add: day_rows_def day_mapping_None [symmetric])

lemma length_day_rows:
  "length (day_rows sid entries d) = (if recognised d then length entries else 0)"
  using day_mapping_None [of d] by (auto simp: day_rows_def split: option.splits)

lemma length_concat_day_rows:
  "length (concat (map (day_rows sid entries) days))
     = length entries * length (filter recognised days)"
  by (induction days) (simp_all add: length_day_rows)

lemma concat_day_rows_filter:
  "concat (map (day_rows sid entries) days)
     = concat (map (day_rows sid entries) (filter recognised days))"
  by (induction days) (simp_all add: day_rows_unrecognised)

lemma tuesday_only:
  "create_schedule init_database ''s1'' ''Workday'' [''climate.living_room''] []
       example_entries [''tue''] True []
   = (Inr (Some
        \<lparr>d_id = Some ''s1'', d_name = Some ''Workday'', d_active = Some True,
         d_zones = Some [''climate.living_room''], d_rooms = Some [], d_days = Some [''tue''],
         d_periods = Some
           [\<lparr>time = Some ''06:00'', start = None, temperature = Some (PNum 20), action = Some ''heat''\<rparr>,
            \<lparr>time = Some ''08:00'', start = None, temperature = Some (PNum 16), action = Some ''heat''\<rparr>,
            \<lparr>time = Some ''17:00'', start = None, temperature = Some (PNum 21), action = Some ''heat''\<rparr>],
         d_entries = Some
           [\<lparr>time = Some ''06:00'', start = None, temperature = Some (PNum 20), action = Some ''heat''\<rparr>,
            \<lparr>time = Some ''08:00'', start = None, temperature = Some (PNum 16), action = Some ''heat''\<rparr>,
            \<lparr>time = Some ''17:00'', start = None, temperature = Some (PNum 21), action = Some ''heat''\<rparr>],
         d_created_at = None, d_error = None, extra = []\<rparr>),
      \<lparr>schedules = [\<lparr>s_id = ''s1'', s_name = ''Workday'', s_active = True, s_metadata = []\<rparr>],
       schedule_zones = [\<lparr>sz_schedule_id = ''s1'', sz_zone_id = ''climate.living_room''\<rparr>],
       schedule_rooms = [],
       schedule_entries =
         [\<lparr>se_schedule_id = ''s1'', se_day_of_week = 1, se_time_minutes = 360,
           se_temperature = PNum 20, se_action = ''heat''\<rparr>,
          \<lparr>se_schedule_id = ''s1'', se_day_of_week = 1, se_time_minutes = 480,
           se_temperature = PNum 16, se_action = ''heat''\<rparr>,
          \<lparr>se_schedule_id = ''s1'', se_day_of_week = 1, se_time_minutes = 1020,
           se_temperature = PNum 21, se_action = ''heat''\<rparr>]\<rparr>)"
  by code_simp

text \<open>
  Claim C5, as amended. When \<^verbatim>\<open>create_schedule\<close> returns, the store holds for that
  schedule id exactly one entry row per pair of a supplied entry and a listed day that
  is a recognised abbreviation, so N entries times the number of recognised listed
  days; the zone, room and entry rows of that id are the ones built from the
  arguments, whatever the store held for the id before.
\<close>

theorem create_schedule_entry_count:
  assumes "create_schedule conn sid name zones rooms entries days active md = (Inr r, conn')"
  shows "length (entry_rows_of conn' sid) = length entries * length (filter recognised days)
       \<and> entry_rows_of conn' sid = concat (map (day_rows sid entries) (filter recognised days))
       \<and> zones_of conn' sid = map (zone_row_of sid) zones
       \<and> rooms_of conn' sid = map (room_row_of sid) rooms"
proof -
  from assms have c: "conn' = committed conn sid name zones rooms entries days active md"
    by (simp add: create_schedule_eq split: if_splits)
  show ?thesis
    unfolding c entry_rows_of_committed zones_of_committed rooms_of_committed
    using concat_day_rows_filter [of sid entries days]
    by (simp add: length_concat_day_rows)
qed

theorem create_schedule_entry_count_witness:
  "\<exists>r conn'. create_schedule init_database ''s1'' ''Workday'' [''climate.living_room''] []
            example_entries [''tue''] True [] = (Inr r, conn')
     \<and> length (entry_rows_of conn' ''s1'') = 3"
proof -
  obtain r conn' where eq: "create_schedule init_database ''s1'' ''Workday''
      [''climate.living_room''] [] example_entries [''tue''] True [] = (Inr r, conn')"
    using tuesday_only by blast
  from create_schedule_entry_count [OF eq]
  have "length (entry_rows_of conn' ''s1'')
          = length example_entries * length (filter recognised [''tue''])"
    by blast
  moreover have "length example_entries * length (filter recognised [''tue'']) = 3"
    by code_simp
  ultimately have "length (entry_rows_of conn' ''s1'') = 3" by (rule trans)
  with eq show ?thesis by blast
qed

text \<open>
  Claim C5 as stated fails: with three entries and the days \<^verbatim>\<open>['monday', 'tue']\<close> the
  call returns and stores three rows, not six.
\<close>

theorem full_day_name_counterexample:
  "(case create_schedule init_database ''s1'' ''Workday'' [''climate.living_room''] []
           example_entries [''monday'', ''tue''] True [] of
      (Inl e, conn') \<Rightarrow> False
    | (Inr r, conn') \<Rightarrow>
        length (entry_rows_of conn' ''s1'') = 3
        \<and> length example_entries * length [''monday'', ''tue''] = 6)"
  by code_simp



text \<open>
  Claim C10. A listed day that is not one of the abbreviations mon, tue, wed, thu,
  fri, sat, sun (compared in lower case) contributes no entry rows and changes
  nothing else: the call returns and stores what it would without that day, so no
  error comes from it and the rows of the other days are inserted.
\<close>

theorem unrecognised_day_skipped:
  assumes "lower d \<notin> {''mon'', ''tue'', ''wed'', ''thu'', ''fri'', ''sat'', ''sun''}"
  shows "day_rows sid entries d = []
       \<and> create_schedule conn sid name zones rooms entries (ds1 @ d # ds2) active md
           = create_schedule conn sid name zones rooms entries (ds1 @ ds2) active md"
proof -
  from assms have "\<not> recognised d" by (simp add: recognised_def day_names_def)
  then show ?thesis by (simp add: create_schedule_eq committed_def day_rows_unrecognised)
qed


theorem unrecognised_day_skipped_witness:
  "lower ''monday'' \<notin> {''mon'', ''tue'', ''wed'', ''thu'', ''fri'', ''sat'', ''sun''}
   \<and> day_rows ''s1'' example_entries ''monday'' = []
   \<and> snd (create_schedule init_database ''s1'' ''Workday'' [''climate.living_room''] []
            example_entries [''monday'', ''tue''] True [])
     = \<lparr>schedules = [\<lparr>s_id = ''s1'', s_name = ''Workday'', s_active = True, s_metadata = []\<rparr>],
        schedule_zones = [\<lparr>sz_schedule_id = ''s1'', sz_zone_id = ''climate.living_room''\<rparr>],
        schedule_rooms = [],
        schedule_entries =
         [\<lparr>se_schedule_id = ''s1'', se_day_of_week = 1, se_time_minutes = 360,
           se_temperature = PNum 20, se_action = ''heat''\<rparr>,
          \<lparr>se_schedule_id = ''s1'', se_day_of_week = 1, se_time_minutes = 480,
           se_temperature = PNum 16, se_action = ''heat''\<rparr>,
          \<lparr>se_schedule_id = ''s1'', se_day_of_week = 1, se_time_minutes = 1020,
           se_temperature = PNum 21, se_action = ''heat''\<rparr>]\<rparr>"
proof -
  have h: "lower ''monday'' \<notin> {''mon'', ''tue'', ''wed'', ''thu'', ''fri'', ''sat'', ''sun''}"
    by code_simp
  from unrecognised_day_skipped [OF h, of "''s1''" example_entries init_database "''Workday''"
      "[''climate.living_room'']" "[]" "[]" "[''tue'']" True "[]"]
  show ?thesis using h by (simp add: tuesday_only)
qed











section \<open>Properties of delete_schedule\<close>

lemma assigned_db_eq:
  "assigned_db =
     \<lparr>schedules = [\<lparr>s_id = ''s1'', s_name = ''Workday'', s_active = True, s_metadata = []\<rparr>],
      schedule_zones = [\<lparr>sz_schedule_id = ''s1'', sz_zone_id = ''climate.living_room''\<rparr>],
      schedule_rooms = [\<lparr>sr_schedule_id = ''s1'', sr_room_name = ''Living Room'',
                          sr_area_id = Some ''area1''\<rparr>],
      schedule_entries =
        [\<lparr>se_schedule_id = ''s1'', se_day_of_week = 0, se_time_minutes = 360,
          se_temperature = PNum 20, se_action = ''heat''\<rparr>,
         \<lparr>se_schedule_id = ''s1'', se_day_of_week = 0, se_time_minutes = 480,
          se_temperature = PNum 16, se_action = ''heat''\<rparr>,
         \<lparr>se_schedule_id = ''s1'', se_day_of_week = 0, se_time_minutes = 1020,
          se_temperature = PNum 21, se_action = ''heat''\<rparr>]\<rparr>"
  by code_simp

lemma schedules_after_delete:
  "schedules (snd (delete_schedule conn sid)) = filter (\<lambda>s. s_id s \<noteq> sid) (schedules conn)"
  by (simp add: delete_schedule_def delete_from_schedules_def Let_def)

lemma delete_schedule_unknown: "\<not> known_id (snd (delete_schedule conn sid)) sid"
  by (simp add: known_id_def schedules_after_delete)

lemma zone_query_after_delete:
  "sid \<notin> set (zone_schedule_ids (snd (delete_schedule conn sid)) zone_id)"
  by (auto simp: zone_schedule_ids_def schedules_after_delete)

lemma room_query_after_delete:
  "sid \<notin> set (room_schedule_ids (snd (delete_schedule conn sid)) room_name)"
  by (auto simp: room_schedule_ids_def schedules_after_delete)

lemma get_schedule_after_delete:
  "get_schedule (snd (delete_schedule conn sid)) sid = None"
proof -
  have "find (\<lambda>s. s_id s = sid) (filter (\<lambda>s. s_id s \<noteq> sid) (schedules conn)) = None"
    by (simp add: find_None_iff)
  then show ?thesis by (simp add: get_schedule_def schedules_after_delete)
qed

lemma cascade_under_enforcement:
  assumes "delete_from_schedules True conn sid = (n, conn')" and "0 < n"
  shows "zones_of conn' sid = [] \<and> rooms_of conn' sid = [] \<and> entry_rows_of conn' sid = []"
proof -
  from assms have "conn' = conn
      \<lparr>schedules := filter (\<lambda>s. s_id s \<noteq> sid) (schedules conn),
       schedule_zones := filter (\<lambda>sz. sz_schedule_id sz \<noteq> sid) (schedule_zones conn),
       schedule_rooms := filter (\<lambda>sr. sr_schedule_id sr \<noteq> sid) (schedule_rooms conn),
       schedule_entries := filter (\<lambda>se. se_schedule_id se \<noteq> sid) (schedule_entries conn)\<rparr>"
    by (auto simp: delete_from_schedules_def Let_def split: if_splits)
  then show ?thesis
    by (simp add: zones_of_def rooms_of_def entry_rows_of_def filter_purged)
qed

text \<open>
  Claim C3. On a store holding one schedule with a zone assignment, a room assignment
  and three entries, \<^verbatim>\<open>delete_schedule\<close> returns true and removes the schedule row,
  while the zone, room and entry rows of the deleted id stay in the store: without
  foreign-key enforcement nothing cascades.
\<close>

theorem delete_leaves_child_rows:
  "delete_schedule assigned_db ''s1''
     = (True,
        \<lparr>schedules = [],
         schedule_zones = [\<lparr>sz_schedule_id = ''s1'', sz_zone_id = ''climate.living_room''\<rparr>],
         schedule_rooms = [\<lparr>sr_schedule_id = ''s1'', sr_room_name = ''Living Room'',
                             sr_area_id = Some ''area1''\<rparr>],
         schedule_entries =
           [\<lparr>se_schedule_id = ''s1'', se_day_of_week = 0, se_time_minutes = 360,
             se_temperature = PNum 20, se_action = ''heat''\<rparr>,
            \<lparr>se_schedule_id = ''s1'', se_day_of_week = 0, se_time_minutes = 480,
             se_temperature = PNum 16, se_action = ''heat''\<rparr>,
            \<lparr>se_schedule_id = ''s1'', se_day_of_week = 0, se_time_minutes = 1020,
             se_temperature = PNum 21, se_action = ''heat''\<rparr>]\<rparr>)"
  by code_simp

section \<open>Properties of the legacy importer\<close>





lemma day_mapping_range: "day_mapping k = Some n \<Longrightarrow> 0 \<le> n \<and> n \<le> 6"
  by (auto simp: day_mapping_def split: if_splits)

lemma day_rows_range:
  "row \<in> set (day_rows sid entries d) \<Longrightarrow> 0 \<le> se_day_of_week row \<and> se_day_of_week row \<le> 6"
proof (cases "day_mapping (lower d)")
  case None
  assume "row \<in> set (day_rows sid entries d)"
  with None show ?thesis by (simp add: day_rows_def)
next
  case (Some n)
  assume "row \<in> set (day_rows sid entries d)"
  with Some obtain e where "row = row_of_entry sid n e" by (auto simp: day_rows_def)
  then have "se_day_of_week row = n" by (simp add: row_of_entry_def Let_def)
  with day_mapping_range [OF Some] show ?thesis by simp
qed


lemma days_ok_committed:
  "days_ok conn \<Longrightarrow> days_ok (committed conn sid name zones rooms entries days active md)"
  by (auto simp: days_ok_def committed_def dest: day_rows_range)

lemma days_ok_create:
  "days_ok conn \<Longrightarrow> days_ok (snd (create_schedule conn sid name zones rooms entries days active md))"
  by (simp add: create_schedule_eq days_ok_committed)

lemma days_ok_delete: "days_ok conn \<Longrightarrow> days_ok (snd (delete_schedule conn sid))"
  by (auto simp: days_ok_def delete_schedule_def delete_from_schedules_def Let_def)

















end
